theory Spec2Isabelle
  imports Complex_Main
begin

section \<open>The operating-system plugin: data model\<close>

text \<open>
  A shallow embedding of the main-process plugin (the factory \<open>plugin(context)\<close>):
  its persisted \<open>state\<close>, the two closure maps \<open>shutdownTimers\<close> and
  \<open>usageTracking\<close>, the pending \<open>setTimeout\<close> callbacks of the host, and the
  sequence of outbound effects (agent actions, renderer messages, configuration
  updates). Each handler is modelled as one atomic transition taking the wall
  clock \<open>now\<close> (milliseconds, the value of \<open>Date.now()\<close>) as a parameter;
  \<open>agentService.triggerAction\<close> is taken to resolve, the oracle
  (\<open>allow2Client.checkActivity\<close>) may throw. JavaScript numbers are integers
  where the code only adds and multiplies them (milliseconds, seconds remaining)
  and exact rationals where it divides (minutes remaining, accumulated seconds).
\<close>

type_synonym agentId = string
type_synonym childId = string

record session_data =
  username :: string
  isIdle :: bool

record proc =
  pid :: nat
  pname :: string

record process_data =
  browsers :: "proc list"
  processes :: "proc list"

text \<open>The \<open>data\<close> argument of \<open>updateUsageTracking\<close> is either payload.\<close>

datatype telemetry = SessionT session_data | ProcessT process_data

record agent =
  hostname :: string
  agent_childId :: "childId option"
  agent_enabled :: bool
  lastSeen :: int
  currentSession :: "session_data option"
  currentProcessData :: "process_data option"

record bedtime_rules =
  bt_enabled :: bool
  bt_hour :: int
  bt_minute :: int
  bt_days :: "string list"

record child_config =
  bedtime :: "bedtime_rules option"
  blockedProcesses :: "string list"

record settings =
  pauseOnIdle :: bool
  idleThreshold :: int
  warningTimes :: "int list"
  gracePeriod :: int
  monitorInterval :: int
  killOnViolation :: bool
  notifyParent :: bool

record violation =
  v_type :: string
  v_agentId :: agentId
  v_hostname :: "string option"
  v_processName :: "string option"
  v_reason :: string
  v_timestamp :: int

record activity =
  a_type :: string
  a_message :: string
  a_agentId :: agentId
  a_timestamp :: int

record tracking =
  startTime :: int
  lastUpdate :: int
  totalSeconds :: rat

datatype urgency = Normal | Critical

text \<open>A template literal is kept as its pieces: literal text and interpolated numbers.\<close>

datatype piece = Str string | Num int

datatype action =
    KillProcess nat string string
  | ShowWarning "piece list" "piece list" urgency
  | LogoutUser "string option" string
  | LockSession

datatype renderer_msg =
    OsSessionUpdate agentId session_data
  | OsQuotaWarning agentId string rat
  | OsQuotaExhausted agentId string string
  | OsBedtimeWarning agentId int
  | OsBlockedProcessDetected agentId string string
  | OsViolation violation

datatype effect =
    TriggerAction agentId action
  | SendToRenderer renderer_msg
  | ConfigurationUpdate

text \<open>The three closures handed to \<open>setTimeout\<close> in the plugin.\<close>

datatype timer_cb =
    WarningCb agentId int
  | ShutdownCb agentId childId
  | GraceLogoutCb agentId string

record timer =
  tid :: nat
  due :: int
  cb :: timer_cb

text \<open>
  The variables the handlers close over: the fields of \<open>state\<close>, the two maps of
  the factory, the host's pending timers (with the next fresh handle), the offset
  of the local time zone in milliseconds, whether \<open>context.sendToRenderer\<close> and
  \<open>services.allow2Client\<close> are present, and the effects emitted so far.
\<close>

record plugin =
  agents :: "agentId \<rightharpoonup> agent"
  userMappings :: "agentId \<Rightarrow> (string \<rightharpoonup> childId)"
  parentAccounts :: "agentId \<Rightarrow> string list"
  children :: "childId \<rightharpoonup> child_config"
  settings :: settings
  violations :: "violation list"
  activityLog :: "activity list"
  shutdownTimers :: "agentId \<rightharpoonup> nat"
  usageTracking :: "string \<rightharpoonup> tracking"
  timers :: "timer list"
  nextTimer :: nat
  tzOffset :: int
  has_sendToRenderer :: bool
  has_allow2Client :: bool
  trace :: "effect list"

text \<open>The oracle's answer to one \<open>checkActivity\<close> call.\<close>

record allowance =
  is_banned :: bool
  is_activity_blocked :: bool
  allowed :: bool
  remaining_seconds :: int

datatype activity_type = Computer | Internet

datatype 'a outcome = Throws | Returns 'a

type_synonym checkActivity = "activity_type \<Rightarrow> allowance option outcome"

section \<open>Primitive effects\<close>

definition emit :: "effect \<Rightarrow> plugin \<Rightarrow> plugin" where
  "emit e s = s\<lparr>trace := trace s @ [e]\<rparr>"

definition triggerAction :: "agentId \<Rightarrow> action \<Rightarrow> plugin \<Rightarrow> plugin" where
  "triggerAction agentId a s = emit (TriggerAction agentId a) s"

definition sendToRenderer :: "renderer_msg \<Rightarrow> plugin \<Rightarrow> plugin" where
  "sendToRenderer m s = (if has_sendToRenderer s then emit (SendToRenderer m) s else s)"

definition configurationUpdate :: "plugin \<Rightarrow> plugin" where
  "configurationUpdate s = emit ConfigurationUpdate s"

definition setTimeout :: "timer_cb \<Rightarrow> int \<Rightarrow> int \<Rightarrow> plugin \<Rightarrow> plugin" where
  "setTimeout c delay now s =
     s\<lparr>timers := timers s @ [\<lparr>tid = nextTimer s, due = now + delay, cb = c\<rparr>],
       nextTimer := Suc (nextTimer s)\<rparr>"

definition clearTimeout :: "nat \<Rightarrow> plugin \<Rightarrow> plugin" where
  "clearTimeout t s = s\<lparr>timers := filter (\<lambda>x. tid x \<noteq> t) (timers s)\<rparr>"

text \<open>JavaScript truthiness of a possibly missing string (\<open>if (childId)\<close>).\<close>

definition truthy :: "string option \<Rightarrow> bool" where
  "truthy c = (case c of None \<Rightarrow> False | Some x \<Rightarrow> x \<noteq> [])"

section \<open>Journal\<close>

definition logActivity :: "activity \<Rightarrow> plugin \<Rightarrow> plugin" where
  "logActivity a s = s\<lparr>activityLog := take 500 (a # activityLog s)\<rparr>"

definition violation_message :: "violation \<Rightarrow> string" where
  "violation_message v =
     v_type v @ '': '' @
       (if v_reason v \<noteq> [] then v_reason v
        else if truthy (v_processName v) then the (v_processName v) else [])"

definition logViolation :: "violation \<Rightarrow> plugin \<Rightarrow> plugin" where
  "logViolation v s =
     (let s1 = s\<lparr>violations := take 200 (v # violations s)\<rparr>;
          s2 = logActivity \<lparr>a_type = v_type v, a_message = violation_message v,
                 a_agentId = v_agentId v, a_timestamp = v_timestamp v\<rparr> s1;
          s3 = (if notifyParent (settings s2) then sendToRenderer (OsViolation v) s2 else s2)
      in configurationUpdate s3)"

section \<open>Usage accounting\<close>

definition usage_key :: "agentId \<Rightarrow> childId \<Rightarrow> string \<Rightarrow> string" where
  "usage_key agentId childId ty = agentId @ '':'' @ childId @ '':'' @ ty"

definition has_browsers :: "telemetry \<Rightarrow> bool" where
  "has_browsers d = (case d of SessionT _ \<Rightarrow> False | ProcessT p \<Rightarrow> browsers p \<noteq> [])"

definition data_isIdle :: "telemetry \<Rightarrow> bool" where
  "data_isIdle d = (case d of SessionT x \<Rightarrow> isIdle x | ProcessT _ \<Rightarrow> False)"

definition tracking_of :: "plugin \<Rightarrow> string \<Rightarrow> int \<Rightarrow> tracking" where
  "tracking_of s key now =
     (case usageTracking s key of
        Some t \<Rightarrow> t
      | None \<Rightarrow> \<lparr>startTime = now, lastUpdate = now, totalSeconds = 0\<rparr>)"

definition elapsed_seconds :: "tracking \<Rightarrow> int \<Rightarrow> rat" where
  "elapsed_seconds t now = of_int (now - lastUpdate t) / 1000"

definition counts_usage :: "plugin \<Rightarrow> string \<Rightarrow> telemetry \<Rightarrow> bool" where
  "counts_usage s ty d =
     (if ty = ''internet'' \<and> has_browsers d then True
      else if ty = ''computer'' \<and> \<not> data_isIdle d then True
      else if ty = ''computer'' \<and> data_isIdle d \<and> \<not> pauseOnIdle (settings s) then True
      else False)"

definition updateUsageTracking ::
  "agentId \<Rightarrow> childId \<Rightarrow> string \<Rightarrow> telemetry \<Rightarrow> int \<Rightarrow> plugin \<Rightarrow> plugin" where
  "updateUsageTracking agentId childId ty d now s =
     (let key = usage_key agentId childId ty;
          t = tracking_of s key now;
          elapsed = elapsed_seconds t now;
          t1 = (if counts_usage s ty d then t\<lparr>totalSeconds := totalSeconds t + elapsed\<rparr> else t);
          t2 = t1\<lparr>lastUpdate := now\<rparr>
      in s\<lparr>usageTracking := (usageTracking s)(key \<mapsto> t2)\<rparr>)"

section \<open>Warnings, logout and scheduled shutdown\<close>

text \<open>\<open>Math.round\<close> rounds half up; \<open>Math.ceil\<close> is the ceiling.\<close>

definition js_round :: "rat \<Rightarrow> int" where
  "js_round x = \<lfloor>x + 1 / 2\<rfloor>"

definition time_warning :: "string \<Rightarrow> rat \<Rightarrow> action" where
  "time_warning ty minutesRemaining =
     ShowWarning
       [Num (js_round minutesRemaining), Str '' minutes remaining'']
       [Str ''You have '', Num (js_round minutesRemaining), Str '' minutes of '', Str ty,
        Str '' time left.'']
       (if minutesRemaining \<le> 5 then Critical else Normal)"

definition showTimeWarning :: "agentId \<Rightarrow> string \<Rightarrow> rat \<Rightarrow> plugin \<Rightarrow> plugin" where
  "showTimeWarning agentId ty minutesRemaining s =
     (case agents s agentId of
        None \<Rightarrow> s
      | Some agent \<Rightarrow>
          sendToRenderer (OsQuotaWarning agentId ty minutesRemaining)
            (triggerAction agentId (time_warning ty minutesRemaining) s))"

definition final_warning :: "plugin \<Rightarrow> action" where
  "final_warning s =
     ShowWarning [Str ''Time is up!'']
       [Str ''Logging out in '', Num (gracePeriod (settings s)),
        Str '' seconds. Please save your work.'']
       Critical"

definition enforceLogout :: "agentId \<Rightarrow> childId option \<Rightarrow> string \<Rightarrow> int \<Rightarrow> plugin \<Rightarrow> plugin" where
  "enforceLogout agentId childId reason now s =
     (case agents s agentId of
        None \<Rightarrow> s
      | Some agent \<Rightarrow>
          (let s1 = triggerAction agentId (final_warning s) s;
               s2 = setTimeout (GraceLogoutCb agentId reason) (gracePeriod (settings s1) * 1000) now s1;
               s3 = logViolation \<lparr>v_type = ''quota_exhausted'', v_agentId = agentId,
                      v_hostname = Some (hostname agent), v_processName = None,
                      v_reason = reason, v_timestamp = now\<rparr> s2
           in sendToRenderer (OsQuotaExhausted agentId (hostname agent) reason) s3))"

definition scheduleWarning :: "agentId \<Rightarrow> int \<Rightarrow> int \<Rightarrow> plugin \<Rightarrow> int \<Rightarrow> plugin" where
  "scheduleWarning agentId remainingSeconds now s warningMinutes =
     (if remainingSeconds > warningMinutes * 60
      then setTimeout (WarningCb agentId warningMinutes)
             ((remainingSeconds - warningMinutes * 60) * 1000) now s
      else s)"

definition scheduleShutdown :: "agentId \<Rightarrow> childId \<Rightarrow> int \<Rightarrow> int \<Rightarrow> plugin \<Rightarrow> plugin" where
  "scheduleShutdown agentId childId remainingSeconds now s =
     (let s1 = (case shutdownTimers s agentId of
                  Some existingTimer \<Rightarrow> clearTimeout existingTimer s
                | None \<Rightarrow> s)
      in if remainingSeconds > 3600 then s1
         else
           (let s2 = foldl (scheduleWarning agentId remainingSeconds now) s1
                       (warningTimes (settings s1));
                s3 = setTimeout (ShutdownCb agentId childId) (remainingSeconds * 1000) now s2
            in s3\<lparr>shutdownTimers := (shutdownTimers s3)(agentId \<mapsto> nextTimer s2)\<rparr>))"

section \<open>Browsers and bedtime\<close>

definition agent_browsers :: "agent \<Rightarrow> proc list" where
  "agent_browsers a = (case currentProcessData a of None \<Rightarrow> [] | Some d \<Rightarrow> browsers d)"

definition killBrowser :: "agentId \<Rightarrow> plugin \<Rightarrow> proc \<Rightarrow> plugin" where
  "killBrowser agentId s b =
     triggerAction agentId (KillProcess (pid b) (pname b) ''internet_quota_exhausted'') s"

definition blockBrowsers :: "agentId \<Rightarrow> childId \<Rightarrow> plugin \<Rightarrow> plugin" where
  "blockBrowsers agentId childId s =
     (case agents s agentId of
        None \<Rightarrow> s
      | Some agent \<Rightarrow>
          triggerAction agentId
            (ShowWarning [Str ''Internet Time Exhausted'']
               [Str ''Browsers are now blocked. Internet time quota has been reached.'']
               Normal)
            (foldl (killBrowser agentId) s (agent_browsers agent)))"

text \<open>
  The local calendar of \<open>new Date()\<close>, derived from the epoch milliseconds and a
  fixed offset of the local zone (daylight-saving shifts are not modelled):
  \<open>getDay()\<close> (0 is Sunday; 1 January 1970 was a Thursday) and the milliseconds
  elapsed since local midnight.
\<close>

definition localDay :: "int \<Rightarrow> int \<Rightarrow> int" where
  "localDay tz now = (now + tz) div 86400000"

definition msOfDay :: "int \<Rightarrow> int \<Rightarrow> int" where
  "msOfDay tz now = (now + tz) mod 86400000"

definition getDay :: "int \<Rightarrow> int \<Rightarrow> nat" where
  "getDay tz now = nat ((localDay tz now + 4) mod 7)"

definition dayNames :: "string list" where
  "dayNames = [''sun'', ''mon'', ''tue'', ''wed'', ''thu'', ''fri'', ''sat'']"

definition minutesUntilBedtime :: "bedtime_rules \<Rightarrow> int \<Rightarrow> int \<Rightarrow> rat" where
  "minutesUntilBedtime rules tz now =
     of_int (bt_hour rules * 3600000 + bt_minute rules * 60000 - msOfDay tz now) / 60000"

definition bedtime_warning :: "rat \<Rightarrow> action" where
  "bedtime_warning m =
     ShowWarning [Str ''Bedtime Soon'']
       [Str ''Computer will log out in '', Num \<lceil>m\<rceil>, Str '' minutes for bedtime.'']
       (if m \<le> 5 then Critical else Normal)"

definition checkBedtime :: "agentId \<Rightarrow> childId \<Rightarrow> int \<Rightarrow> plugin \<Rightarrow> plugin" where
  "checkBedtime agentId childId now s =
     (case children s childId of
        None \<Rightarrow> s
      | Some childConfig \<Rightarrow>
          (case bedtime childConfig of
             None \<Rightarrow> s
           | Some rules \<Rightarrow>
               if \<not> bt_enabled rules then s
               else if dayNames ! getDay (tzOffset s) now \<notin> set (bt_days rules) then s
               else
                 (let m = minutesUntilBedtime rules (tzOffset s) now
                  in if m \<le> 0 then enforceLogout agentId (Some childId) ''Bedtime reached'' now s
                     else if m \<le> 15
                     then sendToRenderer (OsBedtimeWarning agentId \<lceil>m\<rceil>)
                            (triggerAction agentId (bedtime_warning m) s)
                     else s)))"

section \<open>Quota evaluation\<close>

definition blocked_verdict :: "allowance \<Rightarrow> bool" where
  "blocked_verdict a = (is_banned a \<or> is_activity_blocked a \<or> \<not> allowed a)"

definition remainingMinutes :: "allowance \<Rightarrow> rat" where
  "remainingMinutes a = of_int (remaining_seconds a) / 60"

definition in_warning_window :: "rat \<Rightarrow> int \<Rightarrow> bool" where
  "in_warning_window m warningTime = (m \<le> of_int warningTime \<and> m > of_int warningTime - 1)"

definition warnIfDue :: "agentId \<Rightarrow> rat \<Rightarrow> plugin \<Rightarrow> int \<Rightarrow> plugin" where
  "warnIfDue agentId m s warningTime =
     (if in_warning_window m warningTime then showTimeWarning agentId ''computer'' m s else s)"

definition processWarnings :: "agentId \<Rightarrow> rat \<Rightarrow> plugin \<Rightarrow> plugin" where
  "processWarnings agentId m s = foldl (warnIfDue agentId m) s (warningTimes (settings s))"

definition afterComputer ::
  "allowance option \<Rightarrow> agentId \<Rightarrow> childId \<Rightarrow> int \<Rightarrow> plugin \<Rightarrow> plugin" where
  "afterComputer internetAllowance agentId childId now s =
     checkBedtime agentId childId now
       (case internetAllowance of
          None \<Rightarrow> s
        | Some ia \<Rightarrow> if \<not> allowed ia then blockBrowsers agentId childId s else s)"

definition checkQuotasAndEnforce ::
  "checkActivity \<Rightarrow> agentId \<Rightarrow> childId \<Rightarrow> int \<Rightarrow> plugin \<Rightarrow> plugin" where
  "checkQuotasAndEnforce check agentId childId now s =
     (if \<not> has_allow2Client s then s
      else case agents s agentId of
        None \<Rightarrow> s
      | Some agent \<Rightarrow>
          (case check Computer of
             Throws \<Rightarrow> s
           | Returns computerAllowance \<Rightarrow>
               (case (if agent_browsers agent \<noteq> [] then check Internet else Returns None) of
                  Throws \<Rightarrow> s
                | Returns internetAllowance \<Rightarrow>
                    (case computerAllowance of
                       None \<Rightarrow> afterComputer internetAllowance agentId childId now s
                     | Some ca \<Rightarrow>
                         if blocked_verdict ca
                         then enforceLogout agentId (Some childId) ''Computer access blocked'' now s
                         else
                           (let s1 = processWarnings agentId (remainingMinutes ca) s
                            in if remaining_seconds ca \<le> 0
                               then enforceLogout agentId (Some childId)
                                      ''Computer time exhausted'' now s1
                               else afterComputer internetAllowance agentId childId now
                                      (scheduleShutdown agentId childId
                                         (remaining_seconds ca) now s1))))))"

section \<open>Telemetry handlers\<close>

definition sessionTail :: "agentId \<Rightarrow> session_data \<Rightarrow> plugin \<Rightarrow> plugin" where
  "sessionTail agentId d s =
     configurationUpdate (sendToRenderer (OsSessionUpdate agentId d) s)"

definition handleSessionData ::
  "checkActivity \<Rightarrow> agentId \<Rightarrow> session_data \<Rightarrow> int \<Rightarrow> plugin \<Rightarrow> plugin" where
  "handleSessionData check agentId d now s =
     (case agents s agentId of
        None \<Rightarrow> s
      | Some agent \<Rightarrow>
          (let agent1 = agent\<lparr>lastSeen := now, currentSession := Some d\<rparr>;
               s1 = s\<lparr>agents := (agents s)(agentId \<mapsto> agent1)\<rparr>;
               childId = userMappings s agentId (username d)
           in if truthy childId
              then
                (let s2 = s1\<lparr>agents := (agents s1)(agentId \<mapsto> agent1\<lparr>agent_childId := childId\<rparr>)\<rparr>
                 in if username d \<in> set (parentAccounts s agentId) then s2
                    else sessionTail agentId d
                           (checkQuotasAndEnforce check agentId (the childId) now
                              (updateUsageTracking agentId (the childId) ''computer''
                                 (SessionT d) now s2)))
              else sessionTail agentId d s1))"

text \<open>\<open>toLowerCase\<close> on the ASCII letters, and \<open>String.prototype.includes\<close>.\<close>

definition lower_char :: "char \<Rightarrow> char" where
  "lower_char c =
     (let n = (of_char c :: nat) in if 65 \<le> n \<and> n \<le> 90 then char_of (n + 32) else c)"

definition toLowerCase :: "string \<Rightarrow> string" where
  "toLowerCase x = map lower_char x"

fun str_includes :: "string \<Rightarrow> string \<Rightarrow> bool" where
  "str_includes [] p = (p = [])"
| "str_includes (c # cs) p = (take (length p) (c # cs) = p \<or> str_includes cs p)"

definition isBlocked :: "string list \<Rightarrow> proc \<Rightarrow> bool" where
  "isBlocked blocked p =
     list_ex (\<lambda>bp. str_includes (toLowerCase (pname p)) (toLowerCase bp)) blocked"

definition blocked_warning :: "proc \<Rightarrow> action" where
  "blocked_warning p =
     ShowWarning [Str ''Application Blocked''] [Str (pname p), Str '' is not allowed right now'']
       Normal"

definition blocked_violation :: "agentId \<Rightarrow> proc \<Rightarrow> int \<Rightarrow> violation" where
  "blocked_violation agentId p now =
     \<lparr>v_type = ''blocked_process'', v_agentId = agentId, v_hostname = None,
      v_processName = Some (pname p), v_reason = ''blocked_list'', v_timestamp = now\<rparr>"

definition blockedProcessStep ::
  "agentId \<Rightarrow> agent \<Rightarrow> string list \<Rightarrow> int \<Rightarrow> plugin \<Rightarrow> proc \<Rightarrow> plugin" where
  "blockedProcessStep agentId agent blocked now s p =
     (if isBlocked blocked p
      then
        (let s1 = (if killOnViolation (settings s)
                   then triggerAction agentId
                          (KillProcess (pid p) (pname p) ''blocked_process'') s
                   else s);
             s2 = triggerAction agentId (blocked_warning p) s1;
             s3 = logViolation (blocked_violation agentId p now) s2
         in sendToRenderer (OsBlockedProcessDetected agentId (hostname agent) (pname p)) s3)
      else s)"

definition handleProcessData :: "agentId \<Rightarrow> process_data \<Rightarrow> int \<Rightarrow> plugin \<Rightarrow> plugin" where
  "handleProcessData agentId d now s =
     (case agents s agentId of
        None \<Rightarrow> s
      | Some agent \<Rightarrow>
          if \<not> truthy (agent_childId agent) then s
          else
            (let childId = the (agent_childId agent);
                 blocked = (case children s childId of
                              None \<Rightarrow> []
                            | Some childConfig \<Rightarrow> blockedProcesses childConfig);
                 s1 = (if browsers d \<noteq> []
                       then updateUsageTracking agentId childId ''internet'' (ProcessT d) now s
                       else s)
             in foldl (blockedProcessStep agentId agent blocked now) s1 (processes d)))"

section \<open>Control commands and timer expiry\<close>

definition blank_agent :: agent where
  "blank_agent =
     \<lparr>hostname = [], agent_childId = None, agent_enabled = False, lastSeen = 0,
      currentSession = None, currentProcessData = None\<rparr>"

definition linkAgent :: "agentId \<Rightarrow> childId option \<Rightarrow> plugin \<Rightarrow> plugin" where
  "linkAgent agentId childId s =
     (let a = (case agents s agentId of None \<Rightarrow> blank_agent | Some x \<Rightarrow> x)
      in configurationUpdate
           (s\<lparr>agents := (agents s)(agentId \<mapsto> a\<lparr>agent_childId := childId, agent_enabled := True\<rparr>)\<rparr>))"

definition unlinkAgent :: "agentId \<Rightarrow> plugin \<Rightarrow> plugin" where
  "unlinkAgent agentId s =
     (let s1 = (case agents s agentId of
                  None \<Rightarrow> s
                | Some a \<Rightarrow>
                    s\<lparr>agents := (agents s)(agentId \<mapsto> a\<lparr>agent_childId := None, agent_enabled := False\<rparr>)\<rparr>);
          s2 = (case shutdownTimers s1 agentId of
                  None \<Rightarrow> s1
                | Some t \<Rightarrow> (clearTimeout t s1)\<lparr>shutdownTimers := (shutdownTimers s1)(agentId := None)\<rparr>)
      in configurationUpdate s2)"


definition session_username :: "plugin \<Rightarrow> agentId \<Rightarrow> string option" where
  "session_username s agentId =
     (case agents s agentId of
        None \<Rightarrow> None
      | Some a \<Rightarrow> (case currentSession a of None \<Rightarrow> None | Some d \<Rightarrow> Some (username d)))"

definition runCallback :: "timer_cb \<Rightarrow> int \<Rightarrow> plugin \<Rightarrow> plugin" where
  "runCallback c now s =
     (case c of
        WarningCb agentId warningMinutes \<Rightarrow>
          showTimeWarning agentId ''computer'' (of_int warningMinutes) s
      | ShutdownCb agentId childId \<Rightarrow>
          enforceLogout agentId (Some childId) ''Computer time exhausted'' now s
      | GraceLogoutCb agentId reason \<Rightarrow>
          triggerAction agentId (LogoutUser (session_username s agentId) reason) s)"

text \<open>
  The host runs a pending callback once its delay has elapsed; a cleared or
  already fired handle does nothing.
\<close>

definition fireTimer :: "nat \<Rightarrow> int \<Rightarrow> plugin \<Rightarrow> plugin" where
  "fireTimer t now s =
     (case find (\<lambda>x. tid x = t) (timers s) of
        None \<Rightarrow> s
      | Some x \<Rightarrow>
          if now < due x then s
          else runCallback (cb x) now (s\<lparr>timers := filter (\<lambda>y. tid y \<noteq> t) (timers s)\<rparr>))"

section \<open>Observations on a run\<close>

definition is_logout_cb :: "agentId \<Rightarrow> timer_cb \<Rightarrow> bool" where
  "is_logout_cb agentId c =
     (case c of
        WarningCb _ _ \<Rightarrow> False
      | ShutdownCb a _ \<Rightarrow> a = agentId
      | GraceLogoutCb a _ \<Rightarrow> a = agentId)"

definition logoutTimers :: "agentId \<Rightarrow> plugin \<Rightarrow> timer list" where
  "logoutTimers agentId s = filter (\<lambda>x. is_logout_cb agentId (cb x)) (timers s)"

definition emitted :: "plugin \<Rightarrow> plugin \<Rightarrow> effect list" where
  "emitted s s' = drop (length (trace s)) (trace s')"

definition is_enforcement :: "agentId \<Rightarrow> effect \<Rightarrow> bool" where
  "is_enforcement agentId e = (case e of TriggerAction a _ \<Rightarrow> a = agentId | _ \<Rightarrow> False)"

definition is_time_warning :: "agentId \<Rightarrow> int \<Rightarrow> effect \<Rightarrow> bool" where
  "is_time_warning agentId threshold e =
     (case e of
        TriggerAction a (ShowWarning title _ _) \<Rightarrow>
          a = agentId \<and> title = [Num threshold, Str '' minutes remaining'']
      | _ \<Rightarrow> False)"

definition is_bedtime_warning :: "effect \<Rightarrow> bool" where
  "is_bedtime_warning e =
     (case e of
        TriggerAction _ (ShowWarning title _ _) \<Rightarrow> title = [Str ''Bedtime Soon'']
      | _ \<Rightarrow> False)"

definition setKill :: "bool \<Rightarrow> plugin \<Rightarrow> plugin" where
  "setKill b s = s\<lparr>settings := (settings s)\<lparr>killOnViolation := b\<rparr>\<rparr>"

text \<open>The effects of one blocked-process detection.\<close>

definition detection_effects :: "plugin \<Rightarrow> agentId \<Rightarrow> agent \<Rightarrow> proc \<Rightarrow> int \<Rightarrow> effect list" where
  "detection_effects s agentId a p now =
     (if killOnViolation (settings s)
      then [TriggerAction agentId (KillProcess (pid p) (pname p) ''blocked_process'')] else []) @
     [TriggerAction agentId (blocked_warning p)] @
     (if notifyParent (settings s) \<and> has_sendToRenderer s
      then [SendToRenderer (OsViolation (blocked_violation agentId p now))] else []) @
     [ConfigurationUpdate] @
     (if has_sendToRenderer s
      then [SendToRenderer (OsBlockedProcessDetected agentId (hostname a) (pname p))] else [])"

text \<open>The effects of one \<open>showTimeWarning\<close> and of one \<open>enforceLogout\<close>.\<close>

definition warning_effects :: "plugin \<Rightarrow> agentId \<Rightarrow> string \<Rightarrow> rat \<Rightarrow> effect list" where
  "warning_effects s agentId ty m =
     TriggerAction agentId (time_warning ty m) #
       (if has_sendToRenderer s then [SendToRenderer (OsQuotaWarning agentId ty m)] else [])"

definition logout_violation :: "agentId \<Rightarrow> agent \<Rightarrow> string \<Rightarrow> int \<Rightarrow> violation" where
  "logout_violation agentId a reason now =
     \<lparr>v_type = ''quota_exhausted'', v_agentId = agentId, v_hostname = Some (hostname a),
      v_processName = None, v_reason = reason, v_timestamp = now\<rparr>"

definition logout_effects :: "plugin \<Rightarrow> agentId \<Rightarrow> agent \<Rightarrow> string \<Rightarrow> int \<Rightarrow> effect list" where
  "logout_effects s agentId a reason now =
     [TriggerAction agentId (final_warning s)] @
     (if notifyParent (settings s) \<and> has_sendToRenderer s
      then [SendToRenderer (OsViolation (logout_violation agentId a reason now))] else []) @
     [ConfigurationUpdate] @
     (if has_sendToRenderer s
      then [SendToRenderer (OsQuotaExhausted agentId (hostname a) reason)] else [])"

definition grace_timer :: "plugin \<Rightarrow> agentId \<Rightarrow> string \<Rightarrow> int \<Rightarrow> timer" where
  "grace_timer s agentId reason now =
     \<lparr>tid = nextTimer s, due = now + gracePeriod (settings s) * 1000,
      cb = GraceLogoutCb agentId reason\<rparr>"

text \<open>An oracle call of the evaluation throws: the computer check, or the internet
  check that follows it when browsers are recorded for the agent.\<close>

definition check_throws :: "checkActivity \<Rightarrow> agentId \<Rightarrow> plugin \<Rightarrow> bool" where
  "check_throws check agentId s =
     (check Computer = Throws \<or>
      (case agents s agentId of
         None \<Rightarrow> False
       | Some a \<Rightarrow> agent_browsers a \<noteq> [] \<and> check Internet = Throws))"

text \<open>
  A quota warning of \<open>showTimeWarning\<close>, recognised by its title
  \<open>N minutes remaining\<close>.
\<close>

definition is_quota_warning :: "agentId \<Rightarrow> effect \<Rightarrow> bool" where
  "is_quota_warning agentId e =
     (case e of
        TriggerAction a (ShowWarning [Num n, Str x] _ _) \<Rightarrow>
          a = agentId \<and> x = '' minutes remaining''
      | _ \<Rightarrow> False)"

text \<open>A step from \<open>s\<close> to \<open>s'\<close> that only appends effects, none of them a quota warning.\<close>

definition quiet :: "agentId \<Rightarrow> plugin \<Rightarrow> plugin \<Rightarrow> bool" where
  "quiet agentId s s' =
     (\<exists>x. trace s' = trace s @ x \<and> filter (is_quota_warning agentId) x = [])"


text \<open>The blocked patterns that apply to a bound agent, and what a snapshot trips.\<close>

definition blockedFor :: "plugin \<Rightarrow> agent \<Rightarrow> string list" where
  "blockedFor s a =
     (case children s (the (agent_childId a)) of
        None \<Rightarrow> []
      | Some childConfig \<Rightarrow> blockedProcesses childConfig)"

definition detected :: "plugin \<Rightarrow> agent \<Rightarrow> process_data \<Rightarrow> proc list" where
  "detected s a d = filter (isBlocked (blockedFor s a)) (processes d)"

definition blocked_activity :: "agentId \<Rightarrow> proc \<Rightarrow> int \<Rightarrow> activity" where
  "blocked_activity agentId p now =
     \<lparr>a_type = ''blocked_process'',
      a_message = violation_message (blocked_violation agentId p now),
      a_agentId = agentId, a_timestamp = now\<rparr>"

text \<open>The clamp of the accounting rule, as the specification words it.\<close>

definition clamp :: "rat \<Rightarrow> rat \<Rightarrow> rat \<Rightarrow> rat" where
  "clamp x lo hi = max lo (min x hi)"

section \<open>A concrete installation\<close>

definition default_settings :: settings where
  "default_settings =
     \<lparr>pauseOnIdle = True, idleThreshold = 300000, warningTimes = [15, 5, 1],
      gracePeriod = 60, monitorInterval = 30000, killOnViolation = True,
      notifyParent = True\<rparr>"

definition pc_agent :: agent where
  "pc_agent =
     \<lparr>hostname = ''family-pc'', agent_childId = None, agent_enabled = True, lastSeen = 0,
      currentSession = None, currentProcessData = None\<rparr>"

definition kid_bedtime :: bedtime_rules where
  "kid_bedtime = \<lparr>bt_enabled = True, bt_hour = 21, bt_minute = 0, bt_days = [''thu'', ''fri'']\<rparr>"

definition kid_config :: child_config where
  "kid_config = \<lparr>bedtime = Some kid_bedtime, blockedProcesses = [''minecraft'']\<rparr>"

definition home :: plugin where
  "home =
     \<lparr>agents = [''a1'' \<mapsto> pc_agent],
      userMappings = (\<lambda>a. if a = ''a1'' then [''kid'' \<mapsto> ''c1''] else Map.empty),
      parentAccounts = (\<lambda>a. if a = ''a1'' then [''dad''] else []),
      children = [''c1'' \<mapsto> kid_config],
      settings = default_settings,
      violations = [], activityLog = [],
      shutdownTimers = Map.empty, usageTracking = Map.empty,
      timers = [], nextTimer = 0, tzOffset = 0,
      has_sendToRenderer = True, has_allow2Client = True,
      trace = []\<rparr>"

definition kid_session :: session_data where
  "kid_session = \<lparr>username = ''kid'', isIdle = False\<rparr>"

definition dad_session :: session_data where
  "dad_session = \<lparr>username = ''dad'', isIdle = False\<rparr>"

definition verdict :: "bool \<Rightarrow> int \<Rightarrow> allowance" where
  "verdict ok remaining =
     \<lparr>is_banned = False, is_activity_blocked = False, allowed = ok,
      remaining_seconds = remaining\<rparr>"

definition answers :: "allowance \<Rightarrow> checkActivity" where
  "answers a = (\<lambda>ty. Returns (Some a))"

definition game_snapshot :: process_data where
  "game_snapshot = \<lparr>browsers = [], processes = [\<lparr>pid = 42, pname = ''Minecraft.exe''\<rparr>]\<rparr>"

definition minecraft :: proc where
  "minecraft = \<lparr>pid = 42, pname = ''Minecraft.exe''\<rparr>"

definition launcher :: proc where
  "launcher = \<lparr>pid = 44, pname = ''minecraft-launcher''\<rparr>"

definition busy_snapshot :: process_data where
  "busy_snapshot =
     \<lparr>browsers = [],
      processes = [minecraft, \<lparr>pid = 43, pname = ''notepad.exe''\<rparr>, launcher]\<rparr>"

definition unavailable :: checkActivity where
  "unavailable = (\<lambda>ty. Throws)"


text \<open>The child's session is reported twice, 30 seconds apart, with access denied.\<close>

definition denied_twice :: plugin where
  "denied_twice =
     handleSessionData (answers (verdict False 0)) ''a1'' kid_session 30000
       (handleSessionData (answers (verdict False 0)) ''a1'' kid_session 0 home)"

text \<open>Two reports 30 seconds apart with 15 and then 14.5 minutes remaining.\<close>

definition fifteen_left :: plugin where
  "fifteen_left = handleSessionData (answers (verdict True 900)) ''a1'' kid_session 0 home"

definition fifteen_left_again :: plugin where
  "fifteen_left_again =
     handleSessionData (answers (verdict True 870)) ''a1'' kid_session 30000 fifteen_left"

text \<open>The child was logged in; then a parent account takes over the machine.\<close>

definition parent_at_pc :: plugin where
  "parent_at_pc =
     handleSessionData (answers (verdict True 7200)) ''a1'' dad_session 30000
       (handleSessionData (answers (verdict True 7200)) ''a1'' kid_session 0 home)"

text \<open>A report with 1000 seconds remaining arms the timers; then the agent is unlinked.\<close>

definition armed :: plugin where
  "armed = handleSessionData (answers (verdict True 1000)) ''a1'' kid_session 0 home"

definition unlinked_armed :: plugin where
  "unlinked_armed = unlinkAgent ''a1'' armed"

definition denied :: plugin where
  "denied = handleSessionData (answers (verdict False 0)) ''a1'' kid_session 0 home"

definition unlinked_denied :: plugin where
  "unlinked_denied = unlinkAgent ''a1'' denied"

text \<open>The agent bound to the child from the control panel.\<close>

definition linked :: plugin where
  "linked = linkAgent ''a1'' (Some ''c1'') home"

text \<open>One usage cell over two days: advances at 0 s and 60 s, then 24 hours later.\<close>

definition cell_key :: string where
  "cell_key = usage_key ''a1'' ''c1'' ''computer''"

definition day1_first :: plugin where
  "day1_first = updateUsageTracking ''a1'' ''c1'' ''computer'' (SessionT kid_session) 0 home"

definition day1_second :: plugin where
  "day1_second =
     updateUsageTracking ''a1'' ''c1'' ''computer'' (SessionT kid_session) 60000 day1_first"

definition day2_first :: plugin where
  "day2_first =
     updateUsageTracking ''a1'' ''c1'' ''computer'' (SessionT kid_session) 86430000 day1_second"

section \<open>What the enforcement steps leave alone\<close>

lemma foldl_frame:
  assumes "\<And>s x. g (f s x) = g s"
  shows "g (foldl f s xs) = g s"
  by (induction xs arbitrary: s) (simp_all add: assms)
















section \<open>Blocked processes and the kill switch\<close>

lemma detection_step:
  "isBlocked blocked p \<Longrightarrow>
   blockedProcessStep agentId a blocked now s p =
     s\<lparr>trace := trace s @ detection_effects s agentId a p now,
       violations := take 200 (blocked_violation agentId p now # violations s),
       activityLog := take 500 (blocked_activity agentId p now # activityLog s)\<rparr>"
  by (simp add: blockedProcessStep_def Let_def triggerAction_def emit_def
      logViolation_def logActivity_def sendToRenderer_def configurationUpdate_def
      detection_effects_def blocked_violation_def blocked_activity_def)

lemma detection_effects_frame:
  "detection_effects (s\<lparr>trace := t, violations := v, activityLog := l\<rparr>) agentId a p now =
   detection_effects s agentId a p now"
  by (simp add: detection_effects_def)

lemma take_append_take: "take n (xs @ take n ys) = take n (xs @ ys)"
  by (simp add: min_def)

lemma detections_fold:
  "foldl (blockedProcessStep agentId a blocked now) s ps =
     (if filter (isBlocked blocked) ps = [] then s
      else s\<lparr>trace := trace s @
                  concat (map (\<lambda>p. detection_effects s agentId a p now)
                            (filter (isBlocked blocked) ps)),
             violations := take 200 (rev (map (\<lambda>p. blocked_violation agentId p now)
                                            (filter (isBlocked blocked) ps)) @ violations s),
             activityLog := take 500 (rev (map (\<lambda>p. blocked_activity agentId p now)
                                             (filter (isBlocked blocked) ps)) @ activityLog s)\<rparr>)"
proof (induction ps arbitrary: s)
  case Nil
  show ?case by simp
next
  case (Cons p ps)
  show ?case
  proof (cases "isBlocked blocked p")
    case False
    then have "blockedProcessStep agentId a blocked now s p = s"
      by (simp add: blockedProcessStep_def)
    with False Cons show ?thesis by simp
  next
    case True
    have v: "take 200 (xs @ take 200 (y # ys)) = take 200 (xs @ y # ys)" for xs ys and y :: violation
      by (rule take_append_take)
    have l: "take 500 (xs @ take 500 (y # ys)) = take 500 (xs @ y # ys)" for xs ys and y :: activity
      by (rule take_append_take)
    show ?thesis
      using True
      by (simp add: Cons detection_step detection_effects_frame v l del: take_Cons_numeral)
  qed
qed

lemma usage_frame:
  "trace (updateUsageTracking agentId childId ty d now s) = trace s"
  "violations (updateUsageTracking agentId childId ty d now s) = violations s"
  "timers (updateUsageTracking agentId childId ty d now s) = timers s"
  "settings (updateUsageTracking agentId childId ty d now s) = settings s"
  "has_sendToRenderer (updateUsageTracking agentId childId ty d now s) = has_sendToRenderer s"
  "agents (updateUsageTracking agentId childId ty d now s) = agents s"
  by (simp_all add: updateUsageTracking_def Let_def)

text \<open>
  Claim C10. For every process snapshot handled for a bound agent, each process
  that matches the child's blocked list produces, in the order of the snapshot,
  the kill action only if \<open>killOnViolation\<close> is on, then in either case the
  \<open>Application Blocked\<close> warning action, the violation notification, the
  configuration update and the \<open>osBlockedProcessDetected\<close> notification; a
  violation record of type \<open>blocked_process\<close> is put at the head of the journal
  for each detection; no timer is touched. With \<open>killOnViolation\<close> off nothing
  but the kill actions is missing.
\<close>

theorem killOnViolation_only_removes_kill:
  assumes "agents s agentId = Some a" and "truthy (agent_childId a)"
  shows "emitted s (handleProcessData agentId d now (setKill b s)) =
           concat (map
             (\<lambda>p. (if b then [TriggerAction agentId
                                 (KillProcess (pid p) (pname p) ''blocked_process'')]
                    else []) @
                  [TriggerAction agentId
                     (ShowWarning [Str ''Application Blocked'']
                        [Str (pname p), Str '' is not allowed right now''] Normal)] @
                  (if notifyParent (settings s) \<and> has_sendToRenderer s
                   then [SendToRenderer (OsViolation
                           \<lparr>v_type = ''blocked_process'', v_agentId = agentId,
                            v_hostname = None, v_processName = Some (pname p),
                            v_reason = ''blocked_list'', v_timestamp = now\<rparr>)]
                   else []) @
                  [ConfigurationUpdate] @
                  (if has_sendToRenderer s
                   then [SendToRenderer
                           (OsBlockedProcessDetected agentId (hostname a) (pname p))]
                   else []))
             (detected s a d))
         \<and> violations (handleProcessData agentId d now (setKill b s)) =
             (if detected s a d = [] then violations s
              else take 200
                     (rev (map (\<lambda>p. \<lparr>v_type = ''blocked_process'', v_agentId = agentId,
                                      v_hostname = None, v_processName = Some (pname p),
                                      v_reason = ''blocked_list'', v_timestamp = now\<rparr>)
                             (detected s a d)) @ violations s))
         \<and> timers (handleProcessData agentId d now (setKill b s)) = timers s"
proof -
  define s1 where "s1 =
    (if browsers d \<noteq> []
     then updateUsageTracking agentId (the (agent_childId a)) ''internet'' (ProcessT d) now
            (setKill b s)
     else setKill b s)"
  have h: "handleProcessData agentId d now (setKill b s) =
      foldl (blockedProcessStep agentId a (blockedFor s a) now) s1 (processes d)"
    using assms by (simp add: handleProcessData_def setKill_def blockedFor_def Let_def s1_def)
  have f: "trace s1 = trace s" "violations s1 = violations s" "timers s1 = timers s"
    by (simp_all add: s1_def usage_frame setKill_def)
  have g: "killOnViolation (settings s1) = b" "notifyParent (settings s1) = notifyParent (settings s)"
    "has_sendToRenderer s1 = has_sendToRenderer s"
    by (simp_all add: s1_def usage_frame setKill_def)
  show ?thesis
    by (simp add: h detections_fold detected_def emitted_def f g detection_effects_def
        blocked_warning_def blocked_violation_def del: take_Cons_numeral cong: if_cong)
qed

theorem killOnViolation_only_removes_kill_witness:
  "emitted linked (handleProcessData ''a1'' busy_snapshot 0 (setKill False linked)) =
     [TriggerAction ''a1''
        (ShowWarning [Str ''Application Blocked'']
           [Str ''Minecraft.exe'', Str '' is not allowed right now''] Normal),
      SendToRenderer (OsViolation (blocked_violation ''a1'' minecraft 0)),
      ConfigurationUpdate,
      SendToRenderer (OsBlockedProcessDetected ''a1'' ''family-pc'' ''Minecraft.exe''),
      TriggerAction ''a1''
        (ShowWarning [Str ''Application Blocked'']
           [Str ''minecraft-launcher'', Str '' is not allowed right now''] Normal),
      SendToRenderer (OsViolation (blocked_violation ''a1'' launcher 0)),
      ConfigurationUpdate,
      SendToRenderer (OsBlockedProcessDetected ''a1'' ''family-pc'' ''minecraft-launcher'')]
   \<and> violations (handleProcessData ''a1'' busy_snapshot 0 (setKill False linked)) =
     [blocked_violation ''a1'' launcher 0, blocked_violation ''a1'' minecraft 0]
   \<and> timers (handleProcessData ''a1'' busy_snapshot 0 (setKill False linked)) = []"
proof -
  let ?a = "pc_agent\<lparr>agent_childId := Some ''c1'', agent_enabled := True\<rparr>"
  have h1: "agents linked ''a1'' = Some ?a"
    by (simp add: linked_def linkAgent_def home_def configurationUpdate_def emit_def)
  have h2: "truthy (agent_childId ?a)" by (simp add: truthy_def)
  have d: "detected linked ?a busy_snapshot = [minecraft, launcher]" by code_simp
  have e: "notifyParent (settings linked)" "has_sendToRenderer linked" "violations linked = []"
    "timers linked = []" "hostname ?a = ''family-pc''"
    by (simp_all add: linked_def linkAgent_def home_def configurationUpdate_def emit_def
        default_settings_def pc_agent_def)
  show ?thesis
    using killOnViolation_only_removes_kill [OF h1 h2, of busy_snapshot 0 False]
    by (simp add: d e minecraft_def launcher_def blocked_violation_def)
qed

section \<open>Usage accounting: what an advance adds\<close>

text \<open>
  Claim C6, as the code has it. On every advance of a usage cell the accumulator
  grows by exactly \<open>(now - lastUpdate) / 1000\<close> seconds when the activity counts
  (and by nothing otherwise), and \<open>lastUpdate\<close> becomes \<open>now\<close>. The difference is
  not clamped: it may exceed twice the report interval and it may be negative.
  A cell that does not exist yet starts at \<open>lastUpdate = now\<close> and so adds zero.
\<close>

theorem usage_advance_adds_raw_elapsed:
  "usageTracking (updateUsageTracking agentId childId ty d now s) (usage_key agentId childId ty) =
     Some ((tracking_of s (usage_key agentId childId ty) now)
       \<lparr>totalSeconds := totalSeconds (tracking_of s (usage_key agentId childId ty) now) +
           (if counts_usage s ty d
            then of_int (now - lastUpdate (tracking_of s (usage_key agentId childId ty) now)) / 1000
            else 0),
        lastUpdate := now\<rparr>)"
  by (simp add: updateUsageTracking_def Let_def elapsed_seconds_def)

text \<open>
  The claim as stated fails: the cell last advanced at 60 s is advanced again 24
  hours later, with a report interval of 30 s. The advance adds 86370 seconds,
  where the clamp to twice the report interval would add 60.
\<close>

theorem usage_elapsed_exceeds_clamp:
  "totalSeconds (tracking_of day2_first cell_key 0)
       - totalSeconds (tracking_of day1_second cell_key 0) \<noteq>
     clamp (of_int (86430000 - lastUpdate (tracking_of day1_second cell_key 0)) / 1000) 0
        (2 * (of_int (monitorInterval (settings day1_second)) / 1000))
   \<and> totalSeconds (tracking_of day2_first cell_key 0)
       - totalSeconds (tracking_of day1_second cell_key 0) = 86370
   \<and> monitorInterval (settings day1_second) = 30000
   \<and> clamp (of_int (86430000 - lastUpdate (tracking_of day1_second cell_key 0)) / 1000) 0
        (2 * (of_int (monitorInterval (settings day1_second)) / 1000)) = 60"
  by code_simp

section \<open>Usage accounting: the day boundary\<close>

lemma tracking_of_update:
  "tracking_of (updateUsageTracking agentId childId ty d now s) (usage_key agentId childId ty) later =
     (tracking_of s (usage_key agentId childId ty) now)
       \<lparr>totalSeconds := totalSeconds (tracking_of s (usage_key agentId childId ty) now) +
           (if counts_usage s ty d
            then elapsed_seconds (tracking_of s (usage_key agentId childId ty) now) now
            else 0),
        lastUpdate := now\<rparr>"
  by (simp add: updateUsageTracking_def Let_def tracking_of_def)

text \<open>
  Claim C7, as the code has it. An advance whose local date differs from the date
  of the cell's last advance resets nothing: the accumulated seconds of the day
  before are carried over and the advance's own elapsed time is added on top.
  (The cell has no set of fired warnings; \<open>tracking\<close> holds three numbers.)
\<close>

theorem usage_carried_over_day_boundary:
  assumes "usageTracking s (usage_key agentId childId ty) = Some t"
    and "localDay (tzOffset s) now \<noteq> localDay (tzOffset s) (lastUpdate t)"
  shows "tracking_of (updateUsageTracking agentId childId ty d now s)
           (usage_key agentId childId ty) later =
         t\<lparr>totalSeconds := totalSeconds t +
              (if counts_usage s ty d then elapsed_seconds t now else 0),
           lastUpdate := now\<rparr>"
  using assms(1) by (simp add: tracking_of_update) (simp add: tracking_of_def)

theorem usage_carried_over_day_boundary_witness:
  "localDay (tzOffset day1_second) 86430000 = 1
   \<and> localDay (tzOffset day1_second) (lastUpdate (tracking_of day1_second cell_key 0)) = 0
   \<and> tracking_of day2_first cell_key 0 =
       \<lparr>startTime = 0, lastUpdate = 86430000, totalSeconds = 86430\<rparr>"
proof -
  let ?t = "\<lparr>startTime = 0, lastUpdate = 60000, totalSeconds = 60\<rparr> :: tracking"
  have h1: "usageTracking day1_second (usage_key ''a1'' ''c1'' ''computer'') = Some ?t"
    by code_simp
  have h2: "localDay (tzOffset day1_second) 86430000 \<noteq> localDay (tzOffset day1_second) (lastUpdate ?t)"
    by code_simp
  have c: "counts_usage day1_second ''computer'' (SessionT kid_session)"
    by code_simp
  have d1: "localDay (tzOffset day1_second) 86430000 = 1"
    by code_simp
  have d0: "localDay (tzOffset day1_second) (lastUpdate (tracking_of day1_second cell_key 0)) = 0"
    by code_simp
  show ?thesis
    using usage_carried_over_day_boundary [OF h1 h2, of "SessionT kid_session" 0] c d1 d0
    by (simp add: day2_first_def cell_key_def elapsed_seconds_def)
qed

text \<open>
  The claim as stated fails: the advance at 24 h 0 min 30 s is the first of the
  second local day (the one before was at 60 s of the first day); it contributes
  86370 seconds of its own, and afterwards the cell holds 86430 seconds, the 60
  seconds of the first day included.
\<close>

theorem usage_not_reset_on_new_day:
  "localDay (tzOffset day1_second) 86430000 = 1
   \<and> localDay (tzOffset day1_second) (lastUpdate (tracking_of day1_second cell_key 0)) = 0
   \<and> elapsed_seconds (tracking_of day1_second cell_key 0) 86430000 = 86370
   \<and> totalSeconds (tracking_of day2_first cell_key 0) = 86430
   \<and> \<not> totalSeconds (tracking_of day2_first cell_key 0)
          \<le> elapsed_seconds (tracking_of day1_second cell_key 0) 86430000"
  by code_simp

section \<open>Oracle failure\<close>

text \<open>
  Claim C9. If an oracle call of a quota evaluation throws, the evaluation returns
  the plugin exactly as it found it: no effect is emitted, no timer is armed or
  cancelled, no state changes; every pending timer is still pending and fires as
  it would have.
\<close>

theorem oracle_failure_changes_nothing:
  assumes "check_throws check agentId s"
  shows "checkQuotasAndEnforce check agentId childId now s = s
         \<and> fireTimer t later (checkQuotasAndEnforce check agentId childId now s) =
           fireTimer t later s"
proof -
  have "checkQuotasAndEnforce check agentId childId now s = s"
    using assms
    by (auto simp: check_throws_def checkQuotasAndEnforce_def split: option.splits outcome.splits)
  then show ?thesis by simp
qed

theorem oracle_failure_changes_nothing_witness:
  "check_throws unavailable ''a1'' armed
   \<and> checkQuotasAndEnforce unavailable ''a1'' ''c1'' 30000 armed = armed
   \<and> logoutTimers ''a1'' (checkQuotasAndEnforce unavailable ''a1'' ''c1'' 30000 armed) =
       [\<lparr>tid = 3, due = 1000000, cb = ShutdownCb ''a1'' ''c1''\<rparr>]
   \<and> filter (is_enforcement ''a1'')
        (emitted armed
           (fireTimer 3 1000000 (checkQuotasAndEnforce unavailable ''a1'' ''c1'' 30000 armed))) =
       [TriggerAction ''a1'' (final_warning armed)]"
proof -
  have h: "check_throws unavailable ''a1'' armed"
    by (simp add: check_throws_def unavailable_def)
  have l: "logoutTimers ''a1'' armed = [\<lparr>tid = 3, due = 1000000, cb = ShutdownCb ''a1'' ''c1''\<rparr>]"
    by code_simp
  have f: "filter (is_enforcement ''a1'') (emitted armed (fireTimer 3 1000000 armed)) =
       [TriggerAction ''a1'' (final_warning armed)]"
    by code_simp
  show ?thesis
    using oracle_failure_changes_nothing [OF h, of "''c1''" 30000 3 1000000] h l f by simp
qed

section \<open>Logout enforcement\<close>

lemma enforceLogout_eq:
  "agents s agentId = Some a \<Longrightarrow>
   enforceLogout agentId childId reason now s =
     s\<lparr>trace := trace s @ logout_effects s agentId a reason now,
       timers := timers s @ [grace_timer s agentId reason now],
       nextTimer := Suc (nextTimer s),
       violations := take 200 (logout_violation agentId a reason now # violations s),
       activityLog := take 500 (\<lparr>a_type = ''quota_exhausted'',
          a_message = violation_message (logout_violation agentId a reason now),
          a_agentId = agentId, a_timestamp = now\<rparr> # activityLog s)\<rparr>"
  by (simp add: enforceLogout_def Let_def triggerAction_def emit_def setTimeout_def logViolation_def
      logActivity_def sendToRenderer_def configurationUpdate_def logout_effects_def grace_timer_def
      logout_violation_def)


lemma enforceLogout_timers:
  "agents s agentId = Some a \<Longrightarrow>
   timers (enforceLogout agentId childId reason now s) =
     timers s @ [grace_timer s agentId reason now]"
  by (simp add: enforceLogout_eq)


section \<open>The oracle's verdict on computer access\<close>





section \<open>Bedtime\<close>

text \<open>
  Claim C8, as the code has it. On an enabled bedtime day, with \<open>m\<close> the minutes
  from now until the bedtime time: if \<open>m \<le> 0\<close> a logout with reason
  \<open>Bedtime reached\<close> is enforced, its logout action armed for the configured grace
  period; if \<open>0 < m \<le> 15\<close> a \<open>Bedtime Soon\<close> warning is emitted, by every
  evaluation and for every such \<open>m\<close>, with urgency critical if \<open>m \<le> 5\<close> and normal
  otherwise; if \<open>m > 15\<close> nothing happens.
\<close>

theorem bedtime_evaluation:
  assumes "children s childId = Some cfg" and "bedtime cfg = Some rules"
    and "bt_enabled rules" and "dayNames ! getDay (tzOffset s) now \<in> set (bt_days rules)"
    and "agents s agentId = Some a"
    and "m = minutesUntilBedtime rules (tzOffset s) now"
  shows "(m \<le> 0 \<longrightarrow>
            checkBedtime agentId childId now s =
              enforceLogout agentId (Some childId) ''Bedtime reached'' now s
            \<and> timers (checkBedtime agentId childId now s) =
              timers s @ [\<lparr>tid = nextTimer s, due = now + gracePeriod (settings s) * 1000,
                           cb = GraceLogoutCb agentId ''Bedtime reached''\<rparr>])
         \<and> (0 < m \<and> m \<le> 15 \<longrightarrow>
            emitted s (checkBedtime agentId childId now s) =
              TriggerAction agentId
                (ShowWarning [Str ''Bedtime Soon'']
                   [Str ''Computer will log out in '', Num \<lceil>m\<rceil>, Str '' minutes for bedtime.'']
                   (if m \<le> 5 then Critical else Normal)) #
              (if has_sendToRenderer s then [SendToRenderer (OsBedtimeWarning agentId \<lceil>m\<rceil>)]
               else [])
            \<and> timers (checkBedtime agentId childId now s) = timers s)
         \<and> (15 < m \<longrightarrow> checkBedtime agentId childId now s = s)"
proof (intro conjI impI)
  assume le: "m \<le> 0"
  then show "checkBedtime agentId childId now s =
      enforceLogout agentId (Some childId) ''Bedtime reached'' now s"
    using assms by (simp add: checkBedtime_def Let_def)
  then show "timers (checkBedtime agentId childId now s) =
      timers s @ [\<lparr>tid = nextTimer s, due = now + gracePeriod (settings s) * 1000,
                   cb = GraceLogoutCb agentId ''Bedtime reached''\<rparr>]"
    using assms(5) by (simp add: enforceLogout_timers grace_timer_def)
next
  assume w: "0 < m \<and> m \<le> 15"
  then have r: "checkBedtime agentId childId now s =
      sendToRenderer (OsBedtimeWarning agentId \<lceil>m\<rceil>) (triggerAction agentId (bedtime_warning m) s)"
    using assms by (simp add: checkBedtime_def Let_def)
  show "emitted s (checkBedtime agentId childId now s) =
      TriggerAction agentId
        (ShowWarning [Str ''Bedtime Soon'']
           [Str ''Computer will log out in '', Num \<lceil>m\<rceil>, Str '' minutes for bedtime.'']
           (if m \<le> 5 then Critical else Normal)) #
      (if has_sendToRenderer s then [SendToRenderer (OsBedtimeWarning agentId \<lceil>m\<rceil>)] else [])"
    by (simp add: r emitted_def sendToRenderer_def triggerAction_def emit_def bedtime_warning_def)
  show "timers (checkBedtime agentId childId now s) = timers s"
    by (simp add: r sendToRenderer_def triggerAction_def emit_def)
next
  assume "15 < m"
  then show "checkBedtime agentId childId now s = s"
    using assms by (simp add: checkBedtime_def Let_def)
qed

theorem bedtime_evaluation_witness:
  "minutesUntilBedtime kid_bedtime (tzOffset home) 75600000 = 0
   \<and> timers (checkBedtime ''a1'' ''c1'' 75600000 home) =
       [\<lparr>tid = 0, due = 75660000, cb = GraceLogoutCb ''a1'' ''Bedtime reached''\<rparr>]"
proof -
  have h1: "children home ''c1'' = Some kid_config" by (simp add: home_def)
  have h2: "bedtime kid_config = Some kid_bedtime" by (simp add: kid_config_def)
  have h3: "bt_enabled kid_bedtime" by (simp add: kid_bedtime_def)
  have h4: "dayNames ! getDay (tzOffset home) 75600000 \<in> set (bt_days kid_bedtime)"
    by code_simp
  have h5: "agents home ''a1'' = Some pc_agent" by (simp add: home_def)
  have m: "minutesUntilBedtime kid_bedtime (tzOffset home) 75600000 = 0"
    by code_simp
  have g: "timers home = [] \<and> nextTimer home = 0 \<and> gracePeriod (settings home) = 60"
    by (simp add: home_def default_settings_def)
  show ?thesis
    using bedtime_evaluation [OF h1 h2 h3 h4 h5 m [symmetric]] m g by auto
qed

text \<open>
  The claim as stated fails: at 20:50 on an enabled day with bedtime at 21:00, ten
  minutes remain, 10 is none of 15, 5 and 1, and the evaluation emits a bedtime
  warning.
\<close>

theorem bedtime_warning_at_ten_minutes:
  "minutesUntilBedtime kid_bedtime (tzOffset home) 75000000 = 10
   \<and> dayNames ! getDay (tzOffset home) 75000000 = ''thu''
   \<and> filter is_bedtime_warning (emitted home (checkBedtime ''a1'' ''c1'' 75000000 home)) =
       [TriggerAction ''a1'' (bedtime_warning 10)]"
  by code_simp

section \<open>Threshold warnings\<close>

lemma warn_fold:
  "agents s agentId = Some a \<Longrightarrow>
   foldl (warnIfDue agentId m) s ws =
     s\<lparr>trace := trace s @ concat (map (\<lambda>t. warning_effects s agentId ''computer'' m)
                                   (filter (in_warning_window m) ws))\<rparr>"
proof (induction ws arbitrary: s)
  case Nil
  then show ?case by simp
next
  case (Cons w ws)
  then show ?case
    by (simp add: warnIfDue_def showTimeWarning_def triggerAction_def emit_def
        sendToRenderer_def warning_effects_def)
qed

lemma processWarnings_eq:
  assumes "agents s agentId = Some a"
  shows "processWarnings agentId m s =
           s\<lparr>trace := trace s @
                concat (map (\<lambda>t. warning_effects s agentId ''computer'' m)
                          (filter (in_warning_window m) (warningTimes (settings s))))\<rparr>"
  using assms by (simp add: processWarnings_def warn_fold)

lemma quota_warnings_of_pass:
  "filter (is_quota_warning agentId)
     (concat (map (\<lambda>t. warning_effects s agentId ''computer'' m) ts)) =
   map (\<lambda>t. TriggerAction agentId (time_warning ''computer'' m)) ts"
  by (induction ts) (simp_all add: warning_effects_def time_warning_def is_quota_warning_def)

lemma quiet_refl: "quiet agentId s s"
  by (simp add: quiet_def)

lemma quiet_trans: "quiet agentId s s' \<Longrightarrow> quiet agentId s' s'' \<Longrightarrow> quiet agentId s s''"
  by (auto simp: quiet_def)

lemma quiet_frame: "trace s' = trace s \<Longrightarrow> quiet agentId s s'"
  by (simp add: quiet_def)

lemma quiet_enforceLogout: "quiet agentId s (enforceLogout i childId reason now s)"
proof (cases "agents s i")
  case None
  then show ?thesis by (simp add: enforceLogout_def quiet_refl)
next
  case (Some a)
  then show ?thesis
    by (simp add: enforceLogout_eq quiet_def logout_effects_def final_warning_def
        is_quota_warning_def)
qed

lemma trace_scheduleShutdown: "trace (scheduleShutdown agentId childId r now s) = trace s"
proof -
  have "trace (foldl (scheduleWarning agentId r now) s0 ws) = trace s0" for s0 ws
    by (rule foldl_frame) (simp add: scheduleWarning_def setTimeout_def)
  then show ?thesis
    by (simp add: scheduleShutdown_def Let_def setTimeout_def clearTimeout_def
        split: option.splits)
qed

lemma trace_killBrowsers:
  "trace (foldl (killBrowser i) s bs) =
     trace s @ map (\<lambda>b. TriggerAction i (KillProcess (pid b) (pname b) ''internet_quota_exhausted'')) bs"
  by (induction bs arbitrary: s) (simp_all add: killBrowser_def triggerAction_def emit_def)

lemma quiet_blockBrowsers: "quiet agentId s (blockBrowsers i childId s)"
proof (cases "agents s i")
  case None
  then show ?thesis by (simp add: blockBrowsers_def quiet_refl)
next
  case (Some a)
  have "filter (is_quota_warning agentId)
          (map (\<lambda>b. TriggerAction i (KillProcess (pid b) (pname b) ''internet_quota_exhausted'')) bs) = []"
    for bs :: "proc list"
    by (induction bs) (simp_all add: is_quota_warning_def)
  then show ?thesis
    using Some
    by (simp add: blockBrowsers_def quiet_def triggerAction_def emit_def trace_killBrowsers
        is_quota_warning_def)
qed

lemma quiet_checkBedtime: "quiet agentId s (checkBedtime i childId now s)"
  by (simp add: checkBedtime_def Let_def quiet_refl quiet_enforceLogout
      split: option.splits)
    (simp add: quiet_def sendToRenderer_def triggerAction_def emit_def bedtime_warning_def
      is_quota_warning_def)

lemma quiet_afterComputer: "quiet agentId s (afterComputer ia i childId now s)"
proof -
  have "quiet agentId s (case ia of None \<Rightarrow> s
          | Some x \<Rightarrow> if \<not> allowed x then blockBrowsers i childId s else s)"
    by (simp add: quiet_refl quiet_blockBrowsers split: option.splits)
  then show ?thesis
    unfolding afterComputer_def by (rule quiet_trans) (rule quiet_checkBedtime)
qed

text \<open>
  Claim C2, as the code has it. In every quota evaluation of an existing agent
  whose oracle calls return and whose computer verdict is not a blocking one, the
  quota warnings sent to the agent are exactly one for each threshold \<open>t\<close> of
  \<open>warningTimes\<close> with \<open>t - 1 < remaining_seconds / 60 \<le> t\<close>, in the order of
  \<open>warningTimes\<close>. This holds in every state of the plugin, whatever was emitted
  before: no record of fired warnings is consulted, so each evaluation that
  observes a remaining time within a threshold's window warns for it again.
\<close>

theorem warnings_emitted_per_evaluation:
  assumes "has_allow2Client s" and "agents s agentId = Some a"
    and "check Computer = Returns (Some ca)" and "\<not> blocked_verdict ca"
    and "\<not> check_throws check agentId s"
  shows "filter (is_quota_warning agentId)
           (emitted s (checkQuotasAndEnforce check agentId childId now s)) =
         map (\<lambda>t. TriggerAction agentId
                    (time_warning ''computer'' (of_int (remaining_seconds ca) / 60)))
           (filter (\<lambda>t. of_int t - 1 < (of_int (remaining_seconds ca) / 60 :: rat)
                       \<and> (of_int (remaining_seconds ca) / 60 :: rat) \<le> of_int t)
              (warningTimes (settings s)))"
proof -
  let ?m = "remainingMinutes ca"
  let ?W = "concat (map (\<lambda>t. warning_effects s agentId ''computer'' ?m)
                      (filter (in_warning_window ?m) (warningTimes (settings s))))"
  let ?s1 = "s\<lparr>trace := trace s @ ?W\<rparr>"
  have "\<exists>ia. (if agent_browsers a \<noteq> [] then check Internet else Returns None) = Returns ia"
    using assms(2,5) by (cases "check Internet") (auto simp: check_throws_def)
  then obtain ia where
    ia: "(if agent_browsers a \<noteq> [] then check Internet else Returns None) = Returns ia" ..
  have ev: "checkQuotasAndEnforce check agentId childId now s =
      (if remaining_seconds ca \<le> 0
       then enforceLogout agentId (Some childId) ''Computer time exhausted'' now ?s1
       else afterComputer ia agentId childId now
              (scheduleShutdown agentId childId (remaining_seconds ca) now ?s1))"
    using assms(1-4) ia
    by (simp add: checkQuotasAndEnforce_def Let_def processWarnings_eq [OF assms(2)])
  have q: "quiet agentId ?s1 (checkQuotasAndEnforce check agentId childId now s)"
  proof (cases "remaining_seconds ca \<le> 0")
    case True
    then show ?thesis by (simp add: ev quiet_enforceLogout)
  next
    case False
    have "quiet agentId ?s1 (scheduleShutdown agentId childId (remaining_seconds ca) now ?s1)"
      by (rule quiet_frame) (rule trace_scheduleShutdown)
    then have "quiet agentId ?s1 (afterComputer ia agentId childId now
              (scheduleShutdown agentId childId (remaining_seconds ca) now ?s1))"
      by (rule quiet_trans) (rule quiet_afterComputer)
    with False show ?thesis by (simp add: ev)
  qed
  then obtain x where x: "trace (checkQuotasAndEnforce check agentId childId now s) = trace s @ ?W @ x"
    and nx: "filter (is_quota_warning agentId) x = []"
    by (auto simp: quiet_def)
  have w: "in_warning_window ?m = (\<lambda>t. of_int t - 1 < (of_int (remaining_seconds ca) / 60 :: rat)
                       \<and> (of_int (remaining_seconds ca) / 60 :: rat) \<le> of_int t)"
    by (auto simp: in_warning_window_def remainingMinutes_def fun_eq_iff)
  have "filter (is_quota_warning agentId)
           (emitted s (checkQuotasAndEnforce check agentId childId now s)) =
        map (\<lambda>t. TriggerAction agentId (time_warning ''computer'' ?m))
          (filter (in_warning_window ?m) (warningTimes (settings s)))"
    by (simp add: emitted_def x nx quota_warnings_of_pass)
  then show ?thesis
    unfolding w by (simp only: remainingMinutes_def)
qed

theorem warnings_emitted_per_evaluation_witness:
  "filter (is_time_warning ''a1'' 15) (trace fifteen_left) =
     [TriggerAction ''a1'' (time_warning ''computer'' 15)]
   \<and> filter (is_quota_warning ''a1'')
       (emitted fifteen_left
          (checkQuotasAndEnforce (answers (verdict True 870)) ''a1'' ''c1'' 30000 fifteen_left)) =
     [TriggerAction ''a1'' (time_warning ''computer'' (29 / 2))]"
proof -
  let ?a = "\<lparr>hostname = ''family-pc'', agent_childId = Some ''c1'', agent_enabled = True,
             lastSeen = 0, currentSession = Some kid_session, currentProcessData = None\<rparr>"
  have h1: "has_allow2Client fifteen_left" by code_simp
  have h2: "agents fifteen_left ''a1'' = Some ?a" by code_simp
  have h3: "answers (verdict True 870) Computer = Returns (Some (verdict True 870))"
    by (simp add: answers_def)
  have h4: "\<not> blocked_verdict (verdict True 870)" by (simp add: blocked_verdict_def verdict_def)
  have h5: "\<not> check_throws (answers (verdict True 870)) ''a1'' fifteen_left"
    by (simp add: check_throws_def answers_def h2)
  have p: "filter (is_time_warning ''a1'' 15) (trace fifteen_left) =
     [TriggerAction ''a1'' (time_warning ''computer'' 15)]"
    by code_simp
  have ws: "warningTimes (settings fifteen_left) = [15, 5, 1]" by code_simp
  have r: "remaining_seconds (verdict True 870) = 870" by (simp add: verdict_def)
  show ?thesis
    using warnings_emitted_per_evaluation
      [where check = "answers (verdict True 870)" and childId = "''c1''" and now = 30000,
       OF h1 h2 h3 h4 h5] p
    by (simp add: ws r)
qed

text \<open>
  The claim as stated fails: two session reports of the same local day, 30 seconds
  apart, observe 900 and then 870 seconds remaining, both within the window of the
  15-minute threshold; the agent is sent the 15-minute warning twice.
\<close>

theorem fifteen_minute_warning_twice:
  "localDay (tzOffset home) 0 = localDay (tzOffset home) 30000
   \<and> in_warning_window (remainingMinutes (verdict True 900)) 15
   \<and> in_warning_window (remainingMinutes (verdict True 870)) 15
   \<and> length (filter (is_time_warning ''a1'' 15) (trace fifteen_left_again)) = 2"
  by code_simp

section \<open>Pending logouts, parent sessions and unlinking\<close>

text \<open>
  Claim C1 at a failing input. The child's session is reported twice, 30 seconds
  apart, while the oracle denies access; the grace period is 60 seconds. Each
  report arms a grace-period logout that no handle is kept of: after the second
  report two logout timers are pending for the agent.
\<close>

theorem two_pending_logout_timers:
  "logoutTimers ''a1'' denied_twice =
    [\<lparr>tid = 0, due = 60000, cb = GraceLogoutCb ''a1'' ''Computer access blocked''\<rparr>,
     \<lparr>tid = 1, due = 90000, cb = GraceLogoutCb ''a1'' ''Computer access blocked''\<rparr>]"
  by code_simp

text \<open>
  Claim C3 at a failing input. The agent was bound to the child by the child's
  session; then the parent account \<open>dad\<close> (listed in \<open>parentAccounts\<close>, not mapped to
  a child) is the current session. A process snapshot that contains a blocked
  process still has the process killed and a warning shown on that agent.
\<close>

theorem parent_session_still_enforced:
  "session_username parent_at_pc ''a1'' = Some ''dad''
   \<and> ''dad'' \<in> set (parentAccounts parent_at_pc ''a1'')
   \<and> filter (is_enforcement ''a1'')
        (emitted parent_at_pc (handleProcessData ''a1'' game_snapshot 60000 parent_at_pc)) =
     [TriggerAction ''a1'' (KillProcess 42 ''Minecraft.exe'' ''blocked_process''),
      TriggerAction ''a1'' (blocked_warning minecraft)]"
  by code_simp

text \<open>
  Claim C4 at a failing input. A report with 1000 seconds remaining arms three
  warning timers and the shutdown timer; unlinking cancels the shutdown timer
  only, and the 15-minute warning timer fires on the unlinked agent at its due
  time. Likewise a grace-period logout armed before the unlink dispatches the
  logout action after it.
\<close>

theorem timers_fire_after_unlink:
  "map cb (timers unlinked_armed) =
     [WarningCb ''a1'' 15, WarningCb ''a1'' 5, WarningCb ''a1'' 1]
   \<and> filter (is_enforcement ''a1'')
        (emitted unlinked_armed (fireTimer 0 100000 unlinked_armed)) =
     [TriggerAction ''a1'' (time_warning ''computer'' 15)]
   \<and> logoutTimers ''a1'' unlinked_denied =
     [\<lparr>tid = 0, due = 60000, cb = GraceLogoutCb ''a1'' ''Computer access blocked''\<rparr>]
   \<and> filter (is_enforcement ''a1'')
        (emitted unlinked_denied (fireTimer 0 60000 unlinked_denied)) =
     [TriggerAction ''a1'' (LogoutUser (Some ''kid'') ''Computer access blocked'')]"
  by code_simp

end
